theory Spec2Isabelle
  imports Main
begin

section \<open>The image generation page (\<open>src/index.tsx\<close>)\<close>

text \<open>
  The page lets a user type a prompt, attach up to four character images and one
  background image, pick an aspect ratio and ask a remote service for images, which it
  shows in a gallery. This theory embeds the functions \<open>getSelectedImages\<close>,
  \<open>setMessage\<close>, \<open>generateAndDisplayImages\<close> and \<open>displayImages\<close>.

  Conventions of the embedding:
  \<^item> A JavaScript string is a \<open>string\<close> (the bytes of its UTF-8 encoding). The page only
    concatenates strings, tests them for emptiness and splits at the ASCII character
    \<open>/\<close>, which work the same on bytes and on UTF-16 code units.
  \<^item> \<open>null\<close> and \<open>undefined\<close> are \<open>None\<close>. A value is \<^emph>\<open>truthy\<close> when it is present
    and, for a string, not empty.
  \<^item> A \<open>ReferenceImage\<close> object is a reference (an address) into a store of objects, so
    that \<open>===\<close> on two objects is equality of addresses.
  \<^item> The document and the remote service are explicit: the state \<open>page\<close> holds the
    elements the functions read and write and the list of requests sent so far; the
    service is a pair of functions from a request to either the value thrown or the
    response.
  \<^item> Elements that the source reads through an unchecked cast (\<open>as HTMLButtonElement\<close>
    and the like) are present in every state; the gallery container, which the source
    tests for \<open>null\<close>, is optional.
  \<^item> The fields of a response of the service may be absent. Where the source guards the
    access (\<open>?.\<close>, a truthiness test or \<open>||\<close>) the model takes the guarded branch; where
    it does not (\<open>content?.parts.filter\<close>), reading the absent field throws a
    \<open>TypeError\<close>: an instance of \<open>Error\<close> whose message is the engine's, kept in the field
    \<open>typeError_message\<close> of the state.
  \<^item> A call to the service settles: it returns a response or throws. A call that never
    settles is outside the model.
\<close>

subsection \<open>Strings, arrays and numbers of JavaScript\<close>

abbreviation newline :: char where
  "newline \<equiv> CHR 0x0A"

abbreviation dquote :: char where
  "dquote \<equiv> CHR 0x22"

definition digit :: "nat \<Rightarrow> char" where
  "digit d = ''0123456789'' ! d"

text \<open>A non-negative integer in a template literal: its decimal digits.\<close>

fun string_of_nat :: "nat \<Rightarrow> string" where
  "string_of_nat n =
     (if n < 10 then [digit n] else string_of_nat (n div 10) @ [digit (n mod 10)])"

declare string_of_nat.simps [simp del]

text \<open>\<open>Array.prototype.join\<close> on an array of strings.\<close>

fun join :: "string \<Rightarrow> string list \<Rightarrow> string" where
  "join sep [] = []"
| "join sep [x] = x"
| "join sep (x # y # ys) = x @ sep @ join sep (y # ys)"

text \<open>
  \<open>String.prototype.split\<close> with a separator of one character: \<open>cur\<close> is the piece
  read so far. The empty string splits into one empty piece.
\<close>

fun split_from :: "char \<Rightarrow> string \<Rightarrow> string \<Rightarrow> string list" where
  "split_from sep cur [] = [cur]"
| "split_from sep cur (c # cs) =
     (if c = sep then cur # split_from sep [] cs else split_from sep (cur @ [c]) cs)"

definition str_split :: "char \<Rightarrow> string \<Rightarrow> string list" where
  "str_split sep s = split_from sep [] s"

text \<open>\<open>xs[i]\<close>: \<open>undefined\<close> out of range.\<close>

definition at :: "'a list \<Rightarrow> nat \<Rightarrow> 'a option" where
  "at xs i = (if i < length xs then Some (xs ! i) else None)"

text \<open>Truthiness of an optional string, and \<open>v || d\<close> on strings.\<close>

definition truthy :: "string option \<Rightarrow> bool" where
  "truthy v = (case v of None \<Rightarrow> False | Some s \<Rightarrow> s \<noteq> [])"

definition or_else :: "string option \<Rightarrow> string \<Rightarrow> string" where
  "or_else v d = (case v of None \<Rightarrow> d | Some s \<Rightarrow> if s = [] then d else s)"

text \<open>\<open>Array.prototype.forEach\<close>, the callback given the element and its index.\<close>

fun forEach :: "('a \<Rightarrow> nat \<Rightarrow> 's \<Rightarrow> 's) \<Rightarrow> 'a list \<Rightarrow> nat \<Rightarrow> 's \<Rightarrow> 's" where
  "forEach f [] index s = s"
| "forEach f (x # xs) index s = forEach f xs (Suc index) (f x index s)"

subsection \<open>Data\<close>

type_synonym ref = nat

record ReferenceImage =
  base64 :: string
  mimeType :: string

text \<open>The parts of a request and of a response: inline binary data or text.\<close>

record Blob =
  data :: "string option"
  inlineMimeType :: "string option"

record Part =
  inlineData :: "Blob option"
  partText :: "string option"

record Content =
  parts :: "Part list option"

record Candidate =
  content :: "Content option"

record GenerateContentResponse =
  candidates :: "Candidate list option"

record Image =
  imageBytes :: "string option"
  imageMimeType :: "string option"

record GeneratedImage =
  image' :: "Image option"

record GenerateImagesResponse =
  generatedImages :: "GeneratedImage list option"

datatype Modality = IMAGE | TEXT

record GenerateContentParameters =
  gc_model :: string
  contents_parts :: "Part list"
  config_responseModalities :: "Modality list"

record GenerateImagesParameters =
  gi_model :: string
  gi_prompt :: string
  config_numberOfImages :: nat
  config_aspectRatio :: string
  config_outputMimeType :: string

datatype request =
  GenerateContent GenerateContentParameters
| GenerateImages GenerateImagesParameters

text \<open>
  A thrown value: an instance of \<open>Error\<close> with its message, or any other value, with
  its \<open>message\<close> property if it has one. A rejected promise of the service throws at
  its \<open>await\<close>.
\<close>

datatype thrown = Error string | NonError "string option"

record ai_models =
  generateContent :: "GenerateContentParameters \<Rightarrow> thrown + GenerateContentResponse"
  generateImages :: "GenerateImagesParameters \<Rightarrow> thrown + GenerateImagesResponse"

text \<open>
  The children of the gallery container: the markup assigned to \<open>innerHTML\<close> by
  \<open>setMessage\<close>, or a gallery item built by \<open>displayImages\<close> (an image and its
  download link; the constant icon markup inside the link is left out).
\<close>

record gallery_item =
  galleryItem_className :: string
  img_src :: string
  img_alt :: string
  downloadBtn_href :: string
  downloadBtn_download :: string
  downloadBtn_className :: string
  downloadBtn_aria_label :: string
  downloadBtn_role :: string

datatype node = Markup string | GalleryItem gallery_item

record page =
  referenceImages :: "string \<Rightarrow> ref option"
  objects :: "ref \<Rightarrow> ReferenceImage"
  checkbox_checked :: "string \<Rightarrow> bool"
  prompt_input_value :: string
  aspect_ratio_select_value :: string
  generate_button_disabled :: bool
  image_gallery :: "node list option"
  console_error :: "thrown list"
  requests :: "request list"
  typeError_message :: string

subsection \<open>\<open>getSelectedImages\<close>\<close>

text \<open>The loop \<open>for (let i = 1; i <= 4; i++)\<close>, pushing onto \<open>selected\<close>.\<close>

function getSelectedImages_loop :: "page \<Rightarrow> nat \<Rightarrow> ref list \<Rightarrow> ref list" where
  "getSelectedImages_loop pg i selected =
     (if i \<le> 4 then
        (let id = ''char'' @ string_of_nat i in
         getSelectedImages_loop pg (i + 1)
           (if checkbox_checked pg (''checkbox-'' @ id) then
              (case referenceImages pg id of
                 Some r \<Rightarrow> selected @ [r]
               | None \<Rightarrow> selected)
            else selected))
      else selected)"
  by pat_completeness auto
termination
  by (relation "measure (\<lambda>(pg, i, selected). 5 - i)") auto

declare getSelectedImages_loop.simps [simp del]

definition getSelectedImages :: "page \<Rightarrow> ref list" where
  "getSelectedImages pg =
     getSelectedImages_loop pg 1
       (case referenceImages pg ''bg'' of Some b \<Rightarrow> [b] | None \<Rightarrow> [])"

subsection \<open>\<open>setMessage\<close>\<close>

definition message_markup :: "string \<Rightarrow> bool \<Rightarrow> string" where
  "message_markup message isError =
     ''<div class='' @ [dquote] @ ''message '' @ (if isError then ''error'' else '''') @
     [dquote] @ ''>'' @ message @ ''</div>''"

definition setMessage :: "string \<Rightarrow> bool \<Rightarrow> page \<Rightarrow> page" where
  "setMessage message isError pg =
     (case image_gallery pg of
        None \<Rightarrow> pg
      | Some children \<Rightarrow> pg\<lparr>image_gallery := Some [Markup (message_markup message isError)]\<rparr>)"

subsection \<open>\<open>displayImages\<close>\<close>

definition fileExtension :: "string \<Rightarrow> string" where
  "fileExtension mime = or_else (at (str_split CHR ''/'' mime) 1) ''jpeg''"

text \<open>The body of the loop for an entry that carries image bytes.\<close>

definition gallery_item_of :: "string \<Rightarrow> string option \<Rightarrow> nat \<Rightarrow> gallery_item" where
  "gallery_item_of bytes mime_opt index =
     (let mime = or_else mime_opt ''image/jpeg'';
          src = ''data:'' @ mime @ '';base64,'' @ bytes
      in \<lparr>galleryItem_className = ''gallery-item'',
          img_src = src,
          img_alt = ''Generated Image '' @ string_of_nat (index + 1),
          downloadBtn_href = src,
          downloadBtn_download =
            ''generated-image-'' @ string_of_nat (index + 1) @ ''.'' @ fileExtension mime,
          downloadBtn_className = ''download-btn'',
          downloadBtn_aria_label = ''Download image '' @ string_of_nat (index + 1),
          downloadBtn_role = ''button''\<rparr>)"

definition displayImages_callback :: "GeneratedImage \<Rightarrow> nat \<Rightarrow> node list \<Rightarrow> node list" where
  "displayImages_callback generatedImage index children =
     (case image' generatedImage of
        None \<Rightarrow> children
      | Some im \<Rightarrow>
          (case imageBytes im of
             None \<Rightarrow> children
           | Some bytes \<Rightarrow>
               if bytes = [] then children
               else children @ [GalleryItem (gallery_item_of bytes (imageMimeType im) index)]))"

definition displayImages :: "GeneratedImage list option \<Rightarrow> page \<Rightarrow> page" where
  "displayImages generated pg =
     (case image_gallery pg of
        None \<Rightarrow> pg
      | Some children \<Rightarrow>
          (let pg1 = pg\<lparr>image_gallery := Some []\<rparr> in
           case generated of
             None \<Rightarrow> setMessage ''No images were generated or the response was empty.'' False pg1
           | Some gs \<Rightarrow>
               if length gs = 0
               then setMessage ''No images were generated or the response was empty.'' False pg1
               else pg1\<lparr>image_gallery := Some (forEach displayImages_callback gs 0 [])\<rparr>))"

subsection \<open>\<open>generateAndDisplayImages\<close>\<close>

text \<open>The prompt of a request with reference images (lines 183 to 205).\<close>

definition hasBg :: "page \<Rightarrow> ref list \<Rightarrow> bool" where
  "hasBg pg selectedImages =
     (length selectedImages > 0 \<and> referenceImages pg ''bg'' = at selectedImages 0)"

definition numCharacters :: "bool \<Rightarrow> ref list \<Rightarrow> nat" where
  "numCharacters has_bg selectedImages =
     (if has_bg then length selectedImages - 1 else length selectedImages)"

definition instructions :: "bool \<Rightarrow> nat \<Rightarrow> string list" where
  "instructions has_bg num =
     (if has_bg
      then [''Use the first provided image as the main background. Critically, you must remove any people from this image, using only the scenery as the background for the final composition.'']
      else []) @
     (if num > 0 then
        (let charText = (if num = 1 then ''character'' else ''characters'') in
         [if has_bg
          then ''Integrate the '' @ string_of_nat num @ '' '' @ charText @
               '' from the other reference images into the background scene.''
          else ''Combine the '' @ string_of_nat num @ '' '' @ charText @
               '' from the reference images into a single cohesive scene based on the text prompt.'',
          ''Crucially, ensure each distinct character appears only once in the final image and that no characters are omitted or duplicated.''])
      else [])"

definition finalPrompt :: "string list \<Rightarrow> string \<Rightarrow> string \<Rightarrow> string" where
  "finalPrompt instrs prompt aspectRatio =
     (if length instrs > 0
      then join '' '' instrs @ [newline, newline] @
           ''Here is the creative brief: '' @ [dquote] @ prompt @ [dquote]
      else prompt) @
     [newline, newline] @ ''Finally, the image must have a '' @ aspectRatio @ '' aspect ratio.''"

definition imagePart :: "ReferenceImage \<Rightarrow> Part" where
  "imagePart img =
     \<lparr>inlineData = Some \<lparr>data = Some (base64 img), inlineMimeType = Some (mimeType img)\<rparr>,
      partText = None\<rparr>"

text \<open>\<open>response.candidates?.[0]?.content\<close>\<close>

definition first_content :: "GenerateContentResponse \<Rightarrow> Content option" where
  "first_content response =
     (case candidates response of
        None \<Rightarrow> None
      | Some cs \<Rightarrow> (case at cs 0 of None \<Rightarrow> None | Some c \<Rightarrow> content c))"

text \<open>
  \<open>response.candidates?.[0]?.content?.parts\<close> as the receiver of a method call: the chain
  is \<open>undefined\<close> when it stops at a guard, and the call throws a \<open>TypeError\<close> with the
  message \<open>msg\<close> when the content is there and its parts are not.
\<close>

definition first_candidate_parts :: "string \<Rightarrow> GenerateContentResponse \<Rightarrow> thrown + Part list option" where
  "first_candidate_parts msg response =
     (case first_content response of
        None \<Rightarrow> Inr None
      | Some ct \<Rightarrow> (case parts ct of None \<Rightarrow> Inl (Error msg) | Some ps \<Rightarrow> Inr (Some ps)))"

text \<open>
  The text of the error thrown when the response holds no image (lines 230 and 231).
  \<open>join\<close> writes an \<open>undefined\<close> element as the empty string.
\<close>

definition modelTextResponse :: "string \<Rightarrow> GenerateContentResponse \<Rightarrow> thrown + string" where
  "modelTextResponse msg response =
     (case first_candidate_parts msg response of
        Inl error \<Rightarrow> Inl error
      | Inr chain \<Rightarrow>
          Inr (or_else
                 (map_option
                    (\<lambda>ps. join '' ''
                       (map (\<lambda>p. case partText p of Some t \<Rightarrow> t | None \<Rightarrow> [])
                          (filter (\<lambda>p. truthy (partText p)) ps)))
                    chain)
                 ''No image was generated by the model.''))"

text \<open>
  The \<open>try\<close> block: the value thrown, if any, and the state it leaves. The non-null
  assertion \<open>part.inlineData!\<close> is \<open>the\<close>; it is only applied to parts the filter kept.
\<close>

definition try_block :: "ai_models \<Rightarrow> page \<Rightarrow> thrown option \<times> page" where
  "try_block ai pg =
     (let prompt = prompt_input_value pg;
          selectedImages = getSelectedImages pg;
          aspectRatio = aspect_ratio_select_value pg
      in
      if length selectedImages > 0 then
        (let imageParts = map (\<lambda>img. imagePart (objects pg img)) selectedImages;
             has_bg = hasBg pg selectedImages;
             num = numCharacters has_bg selectedImages;
             final = finalPrompt (instructions has_bg num) prompt aspectRatio;
             params = \<lparr>gc_model = ''gemini-2.5-flash-image-preview'',
                       contents_parts = imageParts @ [\<lparr>inlineData = None, partText = Some final\<rparr>],
                       config_responseModalities = [IMAGE, TEXT]\<rparr>;
             pg1 = pg\<lparr>requests := requests pg @ [GenerateContent params]\<rparr>
         in
         case generateContent ai params of
           Inl error \<Rightarrow> (Some error, pg1)
         | Inr response \<Rightarrow>
             (case first_candidate_parts (typeError_message pg) response of
                Inl error \<Rightarrow> (Some error, pg1)
              | Inr chain \<Rightarrow>
                  (let imagePartsFromResponse =
                         map_option (filter (\<lambda>p. inlineData p \<noteq> None)) chain;
                       no_image =
                         (case modelTextResponse (typeError_message pg) response of
                            Inl error \<Rightarrow> (Some error, pg1)
                          | Inr message \<Rightarrow> (Some (Error message), pg1))
                   in
                   case imagePartsFromResponse of
                     None \<Rightarrow> no_image
                   | Some ps \<Rightarrow>
                       if length ps > 0 then
                         (let images =
                                map (\<lambda>part. \<lparr>image' = Some
                                       \<lparr>imageBytes = data (the (inlineData part)),
                                        imageMimeType = inlineMimeType (the (inlineData part))\<rparr>\<rparr>) ps
                          in (None, displayImages (Some images) pg1))
                       else no_image)))
      else
        (let params = \<lparr>gi_model = ''imagen-4.0-generate-001'',
                       gi_prompt = prompt,
                       config_numberOfImages = 3,
                       config_aspectRatio = aspectRatio,
                       config_outputMimeType = ''image/jpeg''\<rparr>;
             pg1 = pg\<lparr>requests := requests pg @ [GenerateImages params]\<rparr>
         in
         case generateImages ai params of
           Inl error \<Rightarrow> (Some error, pg1)
         | Inr response \<Rightarrow> (None, displayImages (generatedImages response) pg1)))"

definition errorMessage :: "thrown \<Rightarrow> string" where
  "errorMessage error =
     (case error of
        Error message \<Rightarrow> message
      | NonError v \<Rightarrow> ''Could not load images. Please check the console for details.'')"

definition catch_block :: "thrown \<Rightarrow> page \<Rightarrow> page" where
  "catch_block error pg =
     setMessage (''Error: '' @ errorMessage error) True
       (pg\<lparr>console_error := console_error pg @ [error]\<rparr>)"

definition generateAndDisplayImages :: "ai_models \<Rightarrow> page \<Rightarrow> page" where
  "generateAndDisplayImages ai pg =
     (let pg1 = pg\<lparr>generate_button_disabled := True\<rparr>;
          pg2 = setMessage ''Generating images, please wait...'' False pg1;
          (thrown, pg3) = try_block ai pg2;
          pg4 = (case thrown of None \<Rightarrow> pg3 | Some error \<Rightarrow> catch_block error pg3)
      in pg4\<lparr>generate_button_disabled := False\<rparr>)"

section \<open>Notions used in the statements\<close>

text \<open>What one character slot contributes to the selection.\<close>

definition character_slot :: "page \<Rightarrow> string \<Rightarrow> ref list" where
  "character_slot pg n =
     (case referenceImages pg (''char'' @ n) of
        None \<Rightarrow> []
      | Some r \<Rightarrow> if checkbox_checked pg (''checkbox-char'' @ n) then [r] else [])"

text \<open>
  The state in which the \<open>try\<close> block starts: the button disabled and the waiting
  message shown.
\<close>

definition entry :: "page \<Rightarrow> page" where
  "entry pg = setMessage ''Generating images, please wait...'' False
     (pg\<lparr>generate_button_disabled := True\<rparr>)"

text \<open>The two requests, as functions of the state.\<close>

definition text_to_image_params :: "page \<Rightarrow> GenerateImagesParameters" where
  "text_to_image_params pg =
     \<lparr>gi_model = ''imagen-4.0-generate-001'',
      gi_prompt = prompt_input_value pg,
      config_numberOfImages = 3,
      config_aspectRatio = aspect_ratio_select_value pg,
      config_outputMimeType = ''image/jpeg''\<rparr>"

definition composed_prompt :: "page \<Rightarrow> string" where
  "composed_prompt pg =
     (let selectedImages = getSelectedImages pg;
          has_bg = hasBg pg selectedImages;
          num = numCharacters has_bg selectedImages
      in finalPrompt (instructions has_bg num) (prompt_input_value pg)
           (aspect_ratio_select_value pg))"

definition composition_params :: "page \<Rightarrow> GenerateContentParameters" where
  "composition_params pg =
     \<lparr>gc_model = ''gemini-2.5-flash-image-preview'',
      contents_parts =
        map (\<lambda>img. imagePart (objects pg img)) (getSelectedImages pg) @
        [\<lparr>inlineData = None, partText = Some (composed_prompt pg)\<rparr>],
      config_responseModalities = [IMAGE, TEXT]\<rparr>"

text \<open>
  The content parts of a response (none when it has no candidate, the first candidate has
  no content, or that content has no parts), and its textual parts: the texts that are
  present and not empty. \<open>parts_missing\<close> holds when the first candidate has content
  without parts.
\<close>

definition response_parts :: "GenerateContentResponse \<Rightarrow> Part list" where
  "response_parts response =
     (case first_content response of
        None \<Rightarrow> []
      | Some ct \<Rightarrow> (case parts ct of None \<Rightarrow> [] | Some ps \<Rightarrow> ps))"

definition parts_missing :: "GenerateContentResponse \<Rightarrow> bool" where
  "parts_missing response =
     (case first_content response of None \<Rightarrow> False | Some ct \<Rightarrow> parts ct = None)"

definition text_parts :: "GenerateContentResponse \<Rightarrow> string list" where
  "text_parts response =
     concat (map (\<lambda>p. case partText p of None \<Rightarrow> [] | Some t \<Rightarrow> if t = [] then [] else [t])
               (response_parts response))"

text \<open>
  The message of the error for a response with no image: the textual parts joined by
  single spaces, or the fixed text when there is none.
\<close>

definition no_image_message :: "GenerateContentResponse \<Rightarrow> string" where
  "no_image_message response =
     (if text_parts response = [] then ''No image was generated by the model.''
      else join '' '' (text_parts response))"

text \<open>
  What the catch block leaves for a thrown value: the value logged, and the gallery (when
  the page has one) holding only the error message, whose text is the message of an
  instance of \<open>Error\<close> and the fixed fallback text for any other value.
\<close>

definition renders_error :: "page \<Rightarrow> page \<Rightarrow> thrown \<Rightarrow> bool" where
  "renders_error pg pg' error =
     (console_error pg' = console_error pg @ [error] \<and>
      image_gallery pg' =
        (case image_gallery pg of
           None \<Rightarrow> None
         | Some old \<Rightarrow>
             Some [Markup (message_markup
                     (''Error: '' @
                      (case error of
                         Error message \<Rightarrow> message
                       | NonError v \<Rightarrow> ''Could not load images. Please check the console for details.''))
                     True)]))"

text \<open>
  The message a thrown value carries, and the text to show for it in the words of the
  specification: that message, or the fallback text when the value lacks a message (has
  none, or an empty one).
\<close>

definition thrown_message :: "thrown \<Rightarrow> string option" where
  "thrown_message error = (case error of Error message \<Rightarrow> Some message | NonError v \<Rightarrow> v)"

definition claimed_error_text :: "thrown \<Rightarrow> string" where
  "claimed_error_text error =
     or_else (thrown_message error) ''Could not load images. Please check the console for details.''"

text \<open>
  A result carries image bytes when its image is present with bytes that are present and
  not empty; \<open>result_mime\<close> is the MIME type it states, if any.
\<close>

definition carries_bytes :: "GeneratedImage \<Rightarrow> bool" where
  "carries_bytes g = (case image' g of None \<Rightarrow> False | Some im \<Rightarrow> truthy (imageBytes im))"

definition result_mime :: "GeneratedImage \<Rightarrow> string option" where
  "result_mime g = (case image' g of None \<Rightarrow> None | Some im \<Rightarrow> imageMimeType im)"

text \<open>
  The extension a MIME type stands for: the text between its first \<open>/\<close> and the next
  \<open>/\<close> or the end; \<open>jpeg\<close> when the type is absent or empty, has no \<open>/\<close>, or has
  nothing there.
\<close>

definition mime_extension :: "string option \<Rightarrow> string" where
  "mime_extension m =
     (case m of
        None \<Rightarrow> ''jpeg''
      | Some s \<Rightarrow>
          if s = [] then ''jpeg''
          else if CHR ''/'' \<notin> set s then ''jpeg''
          else (let e = takeWhile (\<lambda>c. c \<noteq> CHR ''/'') (tl (dropWhile (\<lambda>c. c \<noteq> CHR ''/'') s))
                in if e = [] then ''jpeg'' else e))"

text \<open>The file names of the download links in the gallery, in document order.\<close>

definition download_names :: "page \<Rightarrow> string list" where
  "download_names pg =
     (case image_gallery pg of
        None \<Rightarrow> []
      | Some children \<Rightarrow>
          concat (map (\<lambda>n. case n of GalleryItem it \<Rightarrow> [downloadBtn_download it] | Markup m \<Rightarrow> [])
                    children))"

text \<open>The nodes one entry of the result list adds to the gallery.\<close>

definition entry_nodes :: "nat \<times> GeneratedImage \<Rightarrow> node list" where
  "entry_nodes p = displayImages_callback (snd p) (fst p) []"

section \<open>Example states\<close>

text \<open>
  A page with a background (object 7), character 1 present and checked (object 8),
  character 2 checked but empty and character 3 present but unchecked (object 9); and the
  same page with no reference image at all.
\<close>

definition example_page :: page where
  "example_page =
     \<lparr>referenceImages = (\<lambda>id. if id = ''bg'' then Some 7 else if id = ''char1'' then Some 8
                               else if id = ''char3'' then Some 9 else None),
      objects = (\<lambda>r. if r = 7 then \<lparr>base64 = ''QkdH'', mimeType = ''image/jpeg''\<rparr>
                      else \<lparr>base64 = ''Q0hS'', mimeType = ''image/png''\<rparr>),
      checkbox_checked = (\<lambda>id. id = ''checkbox-char1'' \<or> id = ''checkbox-char2''),
      prompt_input_value = ''P'',
      aspect_ratio_select_value = ''16:9'',
      generate_button_disabled = False,
      image_gallery = Some [Markup ''old''],
      console_error = [],
      requests = [],
      typeError_message =
        ''Cannot read properties of undefined (reading '' @ [CHR 0x27] @ ''filter'' @
        [CHR 0x27] @ '')''\<rparr>"

definition empty_page :: page where
  "empty_page = example_page\<lparr>referenceImages := (\<lambda>id. None)\<rparr>"

text \<open>A response with two texts and no image, and three results of the image service.\<close>

definition refusal :: GenerateContentResponse where
  "refusal =
     \<lparr>candidates = Some
        [\<lparr>content = Some
            \<lparr>parts = Some [\<lparr>inlineData = None, partText = Some ''I cannot''\<rparr>,
                           \<lparr>inlineData = None, partText = Some []\<rparr>,
                           \<lparr>inlineData = None, partText = Some ''do that''\<rparr>]\<rparr>\<rparr>]\<rparr>"

text \<open>
  A response whose first candidate has content without parts (as for a blocked answer),
  and one whose only text is an image tag.
\<close>

definition blocked :: GenerateContentResponse where
  "blocked = \<lparr>candidates = Some [\<lparr>content = Some \<lparr>parts = None\<rparr>\<rparr>]\<rparr>"

definition tag_reply :: GenerateContentResponse where
  "tag_reply =
     \<lparr>candidates = Some
        [\<lparr>content = Some
            \<lparr>parts = Some [\<lparr>inlineData = None, partText = Some ''<img src=x>''\<rparr>]\<rparr>\<rparr>]\<rparr>"

definition three_results :: "GeneratedImage list" where
  "three_results =
     [\<lparr>image' = Some \<lparr>imageBytes = Some ''QUJD'', imageMimeType = Some ''image/png''\<rparr>\<rparr>,
      \<lparr>image' = Some \<lparr>imageBytes = None, imageMimeType = Some ''image/png''\<rparr>\<rparr>,
      \<lparr>image' = Some \<lparr>imageBytes = Some ''REVG'', imageMimeType = None\<rparr>\<rparr>]"

definition no_bytes_results :: "GeneratedImage list" where
  "no_bytes_results =
     [\<lparr>image' = None\<rparr>,
      \<lparr>image' = Some \<lparr>imageBytes = Some [], imageMimeType = Some ''image/png''\<rparr>\<rparr>,
      \<lparr>image' = Some \<lparr>imageBytes = None, imageMimeType = None\<rparr>\<rparr>]"

text \<open>A service that answers with the refusal and the three results, and one that fails.\<close>

definition refusing_ai :: ai_models where
  "refusing_ai =
     \<lparr>generateContent = (\<lambda>params. Inr refusal),
      generateImages = (\<lambda>params. Inr \<lparr>generatedImages = Some three_results\<rparr>)\<rparr>"

definition failing_ai :: ai_models where
  "failing_ai =
     \<lparr>generateContent = (\<lambda>params. Inl (NonError None)),
      generateImages = (\<lambda>params. Inl (Error ''quota exceeded''))\<rparr>"

text \<open>
  Services that answer the composition request with the blocked response and with the
  image tag, and services whose image endpoint rejects with an object that is not an
  \<open>Error\<close> but has a message, and with an \<open>Error\<close> whose message is empty.
\<close>

definition blocked_ai :: ai_models where
  "blocked_ai = refusing_ai\<lparr>generateContent := (\<lambda>params. Inr blocked)\<rparr>"

definition tag_ai :: ai_models where
  "tag_ai = refusing_ai\<lparr>generateContent := (\<lambda>params. Inr tag_reply)\<rparr>"

definition object_ai :: ai_models where
  "object_ai = refusing_ai\<lparr>generateImages := (\<lambda>params. Inl (NonError (Some ''boom'')))\<rparr>"

definition empty_message_ai :: ai_models where
  "empty_message_ai = refusing_ai\<lparr>generateImages := (\<lambda>params. Inl (Error []))\<rparr>"

section \<open>Auxiliary lemmas\<close>

subsection \<open>The selection\<close>

lemma loop_step:
  "i \<le> 4 \<Longrightarrow> j = i + 1 \<Longrightarrow> string_of_nat i = n \<Longrightarrow>
   getSelectedImages_loop pg i sel = getSelectedImages_loop pg j (sel @ character_slot pg n)"
  by (subst getSelectedImages_loop.simps)
     (auto simp add: Let_def character_slot_def split: option.splits)

lemma loop_done: "4 < i \<Longrightarrow> getSelectedImages_loop pg i sel = sel"
  by (subst getSelectedImages_loop.simps) simp

lemma small_digits:
  "string_of_nat (Suc 0) = ''1''" "string_of_nat 2 = ''2''"
  "string_of_nat 3 = ''3''" "string_of_nat 4 = ''4''"
  by (simp_all add: string_of_nat.simps digit_def)

lemma loop_all:
  "getSelectedImages_loop pg (Suc 0) sel =
     sel @ character_slot pg ''1'' @ character_slot pg ''2'' @
     character_slot pg ''3'' @ character_slot pg ''4''"
proof -
  let ?s1 = "sel @ character_slot pg ''1''"
  let ?s2 = "?s1 @ character_slot pg ''2''"
  let ?s3 = "?s2 @ character_slot pg ''3''"
  let ?s4 = "?s3 @ character_slot pg ''4''"
  have "getSelectedImages_loop pg (Suc 0) sel = getSelectedImages_loop pg 2 ?s1"
    by (rule loop_step) (simp_all add: small_digits)
  also have "\<dots> = getSelectedImages_loop pg 3 ?s2"
    by (rule loop_step) (simp_all add: small_digits)
  also have "\<dots> = getSelectedImages_loop pg 4 ?s3"
    by (rule loop_step) (simp_all add: small_digits)
  also have "\<dots> = getSelectedImages_loop pg 5 ?s4"
    by (rule loop_step) (simp_all add: small_digits)
  also have "\<dots> = ?s4"
    by (rule loop_done) simp
  finally show ?thesis by simp
qed

lemma getSelectedImages_slots:
  "getSelectedImages pg =
     (case referenceImages pg ''bg'' of None \<Rightarrow> [] | Some b \<Rightarrow> [b]) @
     character_slot pg ''1'' @ character_slot pg ''2'' @
     character_slot pg ''3'' @ character_slot pg ''4''"
  by (simp add: getSelectedImages_def loop_all split: option.splits)

subsection \<open>Splitting a MIME type\<close>

lemma split_from_takeWhile:
  "split_from sep cur s =
     (cur @ takeWhile (\<lambda>c. c \<noteq> sep) s) #
     (case dropWhile (\<lambda>c. c \<noteq> sep) s of [] \<Rightarrow> [] | c # rest \<Rightarrow> split_from sep [] rest)"
  by (induction s arbitrary: cur) auto

lemma str_split_pieces:
  "str_split sep s =
     takeWhile (\<lambda>c. c \<noteq> sep) s #
     (case dropWhile (\<lambda>c. c \<noteq> sep) s of [] \<Rightarrow> [] | c # rest \<Rightarrow> str_split sep rest)"
  unfolding str_split_def by (subst split_from_takeWhile) simp

lemma second_piece:
  "at (str_split sep s) (Suc 0) =
     (if sep \<in> set s
      then Some (takeWhile (\<lambda>c. c \<noteq> sep) (tl (dropWhile (\<lambda>c. c \<noteq> sep) s)))
      else None)"
proof (cases "dropWhile (\<lambda>c. c \<noteq> sep) s")
  case Nil
  then have "sep \<notin> set s"
    by (metis (mono_tags, lifting) dropWhile_eq_Nil_conv)
  moreover have "str_split sep s = [takeWhile (\<lambda>c. c \<noteq> sep) s]"
    by (subst str_split_pieces) (simp only: Nil list.case)
  ultimately show ?thesis
    by (simp add: at_def)
next
  case (Cons c rest)
  then have "sep \<in> set s"
    by (metis (mono_tags, lifting) dropWhile_eq_Nil_conv list.distinct(1))
  moreover have "str_split sep s = takeWhile (\<lambda>c. c \<noteq> sep) s # str_split sep rest"
    by (subst str_split_pieces) (simp only: Cons list.case)
  moreover have "str_split sep rest = takeWhile (\<lambda>c. c \<noteq> sep) rest #
      (case dropWhile (\<lambda>c. c \<noteq> sep) rest of [] \<Rightarrow> [] | c # r \<Rightarrow> str_split sep r)"
    by (rule str_split_pieces)
  ultimately show ?thesis
    by (simp add: at_def Cons)
qed

lemma fileExtension_mime:
  "fileExtension (or_else m ''image/jpeg'') = mime_extension m"
proof (cases m)
  case None
  then show ?thesis
    by (simp add: fileExtension_def second_piece or_else_def mime_extension_def)
next
  case (Some s)
  then show ?thesis
    by (simp add: fileExtension_def second_piece or_else_def mime_extension_def Let_def)
qed

subsection \<open>The gallery\<close>

lemma callback_append:
  "displayImages_callback g i children = children @ displayImages_callback g i []"
  by (simp add: displayImages_callback_def split: option.splits)

lemma forEach_callback:
  "forEach displayImages_callback gs k children =
     children @ concat (map entry_nodes (enumerate k gs))"
proof (induction gs arbitrary: k children)
  case Nil
  then show ?case by simp
next
  case (Cons g gs)
  show ?case
    using callback_append [of g k children]
    by (simp add: Cons.IH entry_nodes_def)
qed

lemma names_of_nodes:
  "concat (map (\<lambda>n. case n of GalleryItem it \<Rightarrow> [downloadBtn_download it] | Markup m \<Rightarrow> [])
            (concat (map entry_nodes ps))) =
   map (\<lambda>(i, g). ''generated-image-'' @ string_of_nat (i + 1) @ ''.'' @ mime_extension (result_mime g))
     (filter (\<lambda>(i, g). carries_bytes g) ps)"
proof (induction ps)
  case Nil
  then show ?case by simp
next
  case (Cons p ps)
  obtain i g where p: "p = (i, g)" by (cases p)
  show ?case
    using Cons.IH
    by (simp add: p entry_nodes_def displayImages_callback_def carries_bytes_def truthy_def
        result_mime_def gallery_item_of_def fileExtension_mime Let_def split: option.splits)
qed

lemma download_names_displayImages:
  "image_gallery pg \<noteq> None \<Longrightarrow>
   download_names (displayImages (Some gs) pg) =
     map (\<lambda>(i, g). ''generated-image-'' @ string_of_nat (i + 1) @ ''.'' @ mime_extension (result_mime g))
       (filter (\<lambda>(i, g). carries_bytes g) (enumerate 0 gs))"
  by (cases gs)
     (auto simp add: download_names_def displayImages_def setMessage_def forEach_callback
        names_of_nodes Let_def simp del: forEach.simps enumerate_simps(2))

lemma display_none:
  "image_gallery (displayImages None pg) =
     (case image_gallery pg of
        None \<Rightarrow> None
      | Some old \<Rightarrow> Some [Markup (message_markup ''No images were generated or the response was empty.'' False)])"
  by (simp add: displayImages_def setMessage_def split: option.splits)

lemma display_empty:
  "image_gallery (displayImages (Some []) pg) =
     (case image_gallery pg of
        None \<Rightarrow> None
      | Some old \<Rightarrow> Some [Markup (message_markup ''No images were generated or the response was empty.'' False)])"
  by (simp add: displayImages_def setMessage_def split: option.splits)

lemma no_bytes_nodes:
  "\<forall>g \<in> set gs. \<not> carries_bytes g \<Longrightarrow> concat (map entry_nodes (enumerate k gs)) = []"
  by (induction gs arbitrary: k)
     (auto simp add: entry_nodes_def displayImages_callback_def carries_bytes_def truthy_def
        split: option.splits)

lemma display_no_bytes:
  "gs \<noteq> [] \<Longrightarrow> \<forall>g \<in> set gs. \<not> carries_bytes g \<Longrightarrow>
   image_gallery (displayImages (Some gs) pg) =
     (case image_gallery pg of None \<Rightarrow> None | Some old \<Rightarrow> Some [])"
  by (simp add: displayImages_def forEach_callback no_bytes_nodes split: option.splits)

subsection \<open>The generation operation\<close>

lemma setMessage_fields [simp]:
  "referenceImages (setMessage m e pg) = referenceImages pg"
  "objects (setMessage m e pg) = objects pg"
  "checkbox_checked (setMessage m e pg) = checkbox_checked pg"
  "prompt_input_value (setMessage m e pg) = prompt_input_value pg"
  "aspect_ratio_select_value (setMessage m e pg) = aspect_ratio_select_value pg"
  "generate_button_disabled (setMessage m e pg) = generate_button_disabled pg"
  "console_error (setMessage m e pg) = console_error pg"
  "requests (setMessage m e pg) = requests pg"
  "typeError_message (setMessage m e pg) = typeError_message pg"
  by (simp_all add: setMessage_def split: option.splits)

lemma setMessage_gallery:
  "image_gallery (setMessage m e pg) =
     (case image_gallery pg of None \<Rightarrow> None | Some old \<Rightarrow> Some [Markup (message_markup m e)])"
  by (simp add: setMessage_def split: option.splits)

lemma displayImages_fields [simp]:
  "referenceImages (displayImages g pg) = referenceImages pg"
  "objects (displayImages g pg) = objects pg"
  "checkbox_checked (displayImages g pg) = checkbox_checked pg"
  "prompt_input_value (displayImages g pg) = prompt_input_value pg"
  "aspect_ratio_select_value (displayImages g pg) = aspect_ratio_select_value pg"
  "generate_button_disabled (displayImages g pg) = generate_button_disabled pg"
  "console_error (displayImages g pg) = console_error pg"
  "requests (displayImages g pg) = requests pg"
  "typeError_message (displayImages g pg) = typeError_message pg"
  by (simp_all add: displayImages_def Let_def split: option.splits)

lemma displayImages_gallery_present:
  "(image_gallery (displayImages g pg) = None) = (image_gallery pg = None)"
  by (simp add: displayImages_def setMessage_def Let_def split: option.splits)

lemma getSelectedImages_frame:
  "referenceImages pg' = referenceImages pg \<Longrightarrow> checkbox_checked pg' = checkbox_checked pg \<Longrightarrow>
   getSelectedImages pg' = getSelectedImages pg"
  by (simp add: getSelectedImages_slots character_slot_def cong: option.case_cong)

lemma entry_fields [simp]:
  "referenceImages (entry pg) = referenceImages pg"
  "objects (entry pg) = objects pg"
  "checkbox_checked (entry pg) = checkbox_checked pg"
  "prompt_input_value (entry pg) = prompt_input_value pg"
  "aspect_ratio_select_value (entry pg) = aspect_ratio_select_value pg"
  "console_error (entry pg) = console_error pg"
  "requests (entry pg) = requests pg"
  "typeError_message (entry pg) = typeError_message pg"
  "(image_gallery (entry pg) = None) = (image_gallery pg = None)"
  by (simp_all add: entry_def setMessage_gallery split: option.splits)

lemma entry_selected [simp]: "getSelectedImages (entry pg) = getSelectedImages pg"
  by (rule getSelectedImages_frame) simp_all

lemma entry_params [simp]:
  "text_to_image_params (entry pg) = text_to_image_params pg"
  "composition_params (entry pg) = composition_params pg"
  by (simp_all add: text_to_image_params_def composition_params_def composed_prompt_def
      hasBg_def)

lemma try_block_text:
  assumes "getSelectedImages pg = []"
  shows "try_block ai pg =
    (case generateImages ai (text_to_image_params pg) of
       Inl error \<Rightarrow>
         (Some error, pg\<lparr>requests := requests pg @ [GenerateImages (text_to_image_params pg)]\<rparr>)
     | Inr response \<Rightarrow>
         (None, displayImages (generatedImages response)
                  (pg\<lparr>requests := requests pg @ [GenerateImages (text_to_image_params pg)]\<rparr>)))"
  using assms by (simp add: try_block_def text_to_image_params_def Let_def cong: sum.case_cong)

lemma join_nonempty:
  "xs \<noteq> [] \<Longrightarrow> hd xs \<noteq> [] \<Longrightarrow> join sep xs \<noteq> []"
  by (induction sep xs rule: join.induct) auto

lemma texts_of_parts:
  "map (\<lambda>p. case partText p of Some t \<Rightarrow> t | None \<Rightarrow> []) (filter (\<lambda>p. truthy (partText p)) ps) =
   concat (map (\<lambda>p. case partText p of None \<Rightarrow> [] | Some t \<Rightarrow> if t = [] then [] else [t]) ps)"
  by (induction ps) (auto simp add: truthy_def split: option.splits)

lemma text_parts_nonempty: "\<forall>t \<in> set (text_parts response). t \<noteq> []"
  by (auto simp add: text_parts_def split: option.splits if_splits)

lemma or_else_joined_texts:
  "or_else (Some (join '' '' (text_parts response))) ''No image was generated by the model.'' =
     no_image_message response"
proof (cases "text_parts response = []")
  case True
  then show ?thesis by (simp add: no_image_message_def or_else_def)
next
  case False
  then have "hd (text_parts response) \<noteq> []"
    using text_parts_nonempty [of response] by (cases "text_parts response") auto
  with False have "join '' '' (text_parts response) \<noteq> []"
    by (rule join_nonempty)
  with False show ?thesis by (simp add: no_image_message_def or_else_def)
qed

lemma first_candidate_parts_cases:
  "first_candidate_parts msg response =
     (if parts_missing response then Inl (Error msg)
      else Inr (case first_content response of None \<Rightarrow> None | Some ct \<Rightarrow> parts ct))"
  by (simp add: first_candidate_parts_def parts_missing_def split: option.splits)

lemma modelTextResponse_cases:
  "modelTextResponse msg response =
     (if parts_missing response then Inl (Error msg) else Inr (no_image_message response))"
proof (cases "first_content response")
  case None
  then show ?thesis
    by (simp add: modelTextResponse_def first_candidate_parts_def parts_missing_def
        no_image_message_def text_parts_def response_parts_def or_else_def)
next
  case (Some ct)
  show ?thesis
  proof (cases "parts ct")
    case None
    with Some show ?thesis
      by (simp add: modelTextResponse_def first_candidate_parts_def parts_missing_def)
  next
    case (Some ps)
    with \<open>first_content response = Some ct\<close>
    have "modelTextResponse msg response =
        Inr (or_else (Some (join '' '' (text_parts response)))
               ''No image was generated by the model.'')"
      by (simp add: modelTextResponse_def first_candidate_parts_def text_parts_def
          response_parts_def texts_of_parts)
    with Some \<open>first_content response = Some ct\<close> show ?thesis
      by (simp add: or_else_joined_texts parts_missing_def)
  qed
qed

lemma try_block_composition:
  assumes "getSelectedImages pg \<noteq> []"
  shows "try_block ai pg =
    (let pg1 = pg\<lparr>requests := requests pg @ [GenerateContent (composition_params pg)]\<rparr> in
     case generateContent ai (composition_params pg) of
       Inl error \<Rightarrow> (Some error, pg1)
     | Inr response \<Rightarrow>
         if parts_missing response then (Some (Error (typeError_message pg)), pg1)
         else if filter (\<lambda>p. inlineData p \<noteq> None) (response_parts response) = []
         then (Some (Error (no_image_message response)), pg1)
         else (None,
               displayImages
                 (Some (map (\<lambda>part. \<lparr>image' = Some
                                \<lparr>imageBytes = data (the (inlineData part)),
                                 imageMimeType = inlineMimeType (the (inlineData part))\<rparr>\<rparr>)
                          (filter (\<lambda>p. inlineData p \<noteq> None) (response_parts response))))
                 pg1))"
proof (cases "generateContent ai (composition_params pg)")
  case (Inl error)
  with assms show ?thesis
    by (simp add: try_block_def composition_params_def composed_prompt_def Let_def)
next
  case (Inr response)
  note defs = try_block_def composition_params_def composed_prompt_def Let_def
    first_candidate_parts_def modelTextResponse_cases parts_missing_def response_parts_def
  show ?thesis
  proof (cases "first_content response")
    case None
    with assms Inr show ?thesis
      by (simp add: defs)
  next
    case (Some ct)
    show ?thesis
    proof (cases "parts ct")
      case None
      with assms Inr Some show ?thesis
        by (simp add: defs)
    next
      case (Some ps)
      with assms Inr \<open>first_content response = Some ct\<close> show ?thesis
        by (simp add: defs)
    qed
  qed
qed

lemma try_block_requests:
  "requests (snd (try_block ai pg)) =
     requests pg @
     [if getSelectedImages pg = [] then GenerateImages (text_to_image_params pg)
      else GenerateContent (composition_params pg)]"
proof (cases "getSelectedImages pg = []")
  case True
  then show ?thesis
    by (simp add: try_block_text split: sum.splits)
next
  case False
  then show ?thesis
    by (simp add: try_block_composition Let_def split: sum.splits)
qed

lemma try_block_console: "console_error (snd (try_block ai pg)) = console_error pg"
proof (cases "getSelectedImages pg = []")
  case True
  then show ?thesis
    by (simp add: try_block_text split: sum.splits)
next
  case False
  then show ?thesis
    by (simp add: try_block_composition Let_def split: sum.splits)
qed

lemma try_block_gallery_present:
  "(image_gallery (snd (try_block ai pg)) = None) = (image_gallery pg = None)"
proof (cases "getSelectedImages pg = []")
  case True
  then show ?thesis
    by (simp add: try_block_text displayImages_gallery_present split: sum.splits)
next
  case False
  then show ?thesis
    by (simp add: try_block_composition displayImages_gallery_present Let_def split: sum.splits)
qed

lemma catch_block_fields [simp]:
  "requests (catch_block error pg) = requests pg"
  "console_error (catch_block error pg) = console_error pg @ [error]"
  by (simp_all add: catch_block_def)

lemma catch_block_gallery:
  "image_gallery (catch_block error pg) =
     (case image_gallery pg of
        None \<Rightarrow> None
      | Some old \<Rightarrow> Some [Markup (message_markup (''Error: '' @ errorMessage error) True)])"
  by (simp add: catch_block_def setMessage_gallery cong: option.case_cong)

lemma generate_unfold:
  "generateAndDisplayImages ai pg =
     (case fst (try_block ai (entry pg)) of
        None \<Rightarrow> snd (try_block ai (entry pg))
      | Some error \<Rightarrow> catch_block error (snd (try_block ai (entry pg))))
     \<lparr>generate_button_disabled := False\<rparr>"
  by (simp add: generateAndDisplayImages_def entry_def Let_def case_prod_beta
      cong: option.case_cong)

lemma generate_requests:
  "requests (generateAndDisplayImages ai pg) =
     requests pg @
     [if getSelectedImages pg = [] then GenerateImages (text_to_image_params pg)
      else GenerateContent (composition_params pg)]"
  using try_block_requests [of ai "entry pg"]
  by (simp add: generate_unfold split: option.splits)

lemma generate_disabled: "generate_button_disabled (generateAndDisplayImages ai pg) = False"
  by (simp add: generate_unfold)

lemma generate_thrown:
  assumes "fst (try_block ai (entry pg)) = Some error"
  shows "image_gallery (generateAndDisplayImages ai pg) =
      (case image_gallery pg of
         None \<Rightarrow> None
       | Some old \<Rightarrow> Some [Markup (message_markup (''Error: '' @ errorMessage error) True)])"
    and "console_error (generateAndDisplayImages ai pg) = console_error pg @ [error]"
proof -
  show "image_gallery (generateAndDisplayImages ai pg) =
      (case image_gallery pg of
         None \<Rightarrow> None
       | Some old \<Rightarrow> Some [Markup (message_markup (''Error: '' @ errorMessage error) True)])"
    using try_block_gallery_present [of ai "entry pg"] assms
    by (auto simp add: generate_unfold catch_block_gallery split: option.splits)
  show "console_error (generateAndDisplayImages ai pg) = console_error pg @ [error]"
    using try_block_console [of ai "entry pg"] assms
    by (simp add: generate_unfold)
qed

lemma thrown_by_try_block:
  "fst (try_block ai (entry pg)) =
     (if getSelectedImages pg = [] then
        (case generateImages ai (text_to_image_params pg) of
           Inl error \<Rightarrow> Some error
         | Inr response \<Rightarrow> None)
      else
        (case generateContent ai (composition_params pg) of
           Inl error \<Rightarrow> Some error
         | Inr response \<Rightarrow>
             if parts_missing response then Some (Error (typeError_message pg))
             else if filter (\<lambda>p. inlineData p \<noteq> None) (response_parts response) = []
             then Some (Error (no_image_message response))
             else None))"
proof (cases "getSelectedImages pg = []")
  case True
  then show ?thesis
    by (simp add: try_block_text [of "entry pg"] split: sum.splits)
next
  case False
  then show ?thesis
    by (simp add: try_block_composition [of "entry pg"] Let_def split: sum.splits)
qed

section \<open>Evaluation of the examples\<close>

lemma example_selection [simp]:
  "getSelectedImages example_page = [7, 8]"
  "getSelectedImages empty_page = []"
  by (simp_all add: getSelectedImages_slots character_slot_def example_page_def empty_page_def)

lemma example_fields [simp]:
  "referenceImages example_page ''bg'' = Some 7"
  "referenceImages empty_page ''bg'' = None"
  "objects example_page 7 = \<lparr>base64 = ''QkdH'', mimeType = ''image/jpeg''\<rparr>"
  "objects example_page 8 = \<lparr>base64 = ''Q0hS'', mimeType = ''image/png''\<rparr>"
  "prompt_input_value example_page = ''P''"
  "prompt_input_value empty_page = ''P''"
  "aspect_ratio_select_value example_page = ''16:9''"
  "aspect_ratio_select_value empty_page = ''16:9''"
  "image_gallery example_page = Some [Markup ''old'']"
  "image_gallery empty_page = Some [Markup ''old'']"
  "console_error example_page = []"
  "console_error empty_page = []"
  "requests example_page = []"
  "requests empty_page = []"
  "typeError_message example_page =
     ''Cannot read properties of undefined (reading '' @ [CHR 0x27] @ ''filter'' @
     [CHR 0x27] @ '')''"
  by (simp_all add: example_page_def empty_page_def)

section \<open>The claims\<close>

subsection \<open>Selection resolver\<close>

text \<open>
  Claim C1. In every state of the five slots and the four checkboxes,
  \<open>getSelectedImages\<close> returns the background image first if and only if the background
  slot holds one, followed by the images of the character slots 1 to 4 in this order,
  a slot contributing if and only if its checkbox is checked and it holds an image.
\<close>

theorem getSelectedImages_correct:
  "getSelectedImages pg =
     (case referenceImages pg ''bg'' of None \<Rightarrow> [] | Some b \<Rightarrow> [b]) @
     concat (map (\<lambda>n. case referenceImages pg (''char'' @ n) of
                         None \<Rightarrow> []
                       | Some r \<Rightarrow>
                           if checkbox_checked pg (''checkbox-char'' @ n) then [r] else [])
               [''1'', ''2'', ''3'', ''4''])"
  by (simp add: getSelectedImages_slots character_slot_def)

text \<open>
  On the example page the background comes first, the checked and present slot 1
  follows, and the checked but empty slot 2 and the present but unchecked slot 3 are
  left out.
\<close>

theorem getSelectedImages_correct_witness:
  "getSelectedImages example_page = [7, 8] \<and>
   referenceImages example_page ''char2'' = None \<and> checkbox_checked example_page ''checkbox-char2'' \<and>
   referenceImages example_page ''char3'' = Some 9 \<and> \<not> checkbox_checked example_page ''checkbox-char3''"
  using getSelectedImages_correct [of example_page]
  by (simp add: example_page_def)

subsection \<open>Prompt composer\<close>

lemma instructions_nonempty:
  "selectedImages \<noteq> [] \<Longrightarrow>
   instructions (hasBg pg selectedImages)
     (numCharacters (hasBg pg selectedImages) selectedImages) \<noteq> []"
  by (cases selectedImages) (auto simp add: instructions_def numCharacters_def Let_def)

text \<open>
  Claim C2. For every non-empty selection list: \<open>hasBg\<close> holds if and only if the first
  selected image is the stored background image; \<open>numCharacters\<close> is the length of the
  selection, less one if \<open>hasBg\<close>; and the final prompt is the instructions joined by
  single spaces, two newlines, the user's prompt in double quotes labelled as the
  creative brief, two newlines and the sentence fixing the aspect ratio to the chosen
  value.
\<close>

theorem composed_prompt_structure:
  assumes "selectedImages \<noteq> []"
  shows "hasBg pg selectedImages = (referenceImages pg ''bg'' = Some (hd selectedImages)) \<and>
    numCharacters (hasBg pg selectedImages) selectedImages =
      (if hasBg pg selectedImages then length selectedImages - 1 else length selectedImages) \<and>
    finalPrompt
      (instructions (hasBg pg selectedImages)
         (numCharacters (hasBg pg selectedImages) selectedImages))
      prompt aspectRatio =
      join '' '' (instructions (hasBg pg selectedImages)
                    (numCharacters (hasBg pg selectedImages) selectedImages)) @
      [newline, newline] @ ''Here is the creative brief: '' @ [dquote] @ prompt @ [dquote] @
      [newline, newline] @ ''Finally, the image must have a '' @ aspectRatio @ '' aspect ratio.''"
proof (intro conjI)
  show "hasBg pg selectedImages = (referenceImages pg ''bg'' = Some (hd selectedImages))"
    using assms by (cases selectedImages) (auto simp add: hasBg_def at_def)
  show "numCharacters (hasBg pg selectedImages) selectedImages =
      (if hasBg pg selectedImages then length selectedImages - 1 else length selectedImages)"
    by (simp add: numCharacters_def)
  show "finalPrompt
      (instructions (hasBg pg selectedImages)
         (numCharacters (hasBg pg selectedImages) selectedImages))
      prompt aspectRatio =
      join '' '' (instructions (hasBg pg selectedImages)
                    (numCharacters (hasBg pg selectedImages) selectedImages)) @
      [newline, newline] @ ''Here is the creative brief: '' @ [dquote] @ prompt @ [dquote] @
      [newline, newline] @ ''Finally, the image must have a '' @ aspectRatio @ '' aspect ratio.''"
    using instructions_nonempty [OF assms, of pg] by (simp add: finalPrompt_def)
qed

theorem composed_prompt_structure_witness:
  "[7, 8] \<noteq> ([] :: ref list) \<and> hasBg example_page [7, 8] \<and>
   numCharacters (hasBg example_page [7, 8]) [7, 8] = 1 \<and>
   finalPrompt
     (instructions (hasBg example_page [7, 8]) (numCharacters (hasBg example_page [7, 8]) [7, 8]))
     ''P'' ''16:9'' =
   ''Use the first provided image as the main background. Critically, you must remove any people from this image, using only the scenery as the background for the final composition. Integrate the 1 character from the other reference images into the background scene. Crucially, ensure each distinct character appears only once in the final image and that no characters are omitted or duplicated.'' @
   [newline, newline] @ ''Here is the creative brief: '' @ [dquote] @ ''P'' @ [dquote] @
   [newline, newline] @ ''Finally, the image must have a 16:9 aspect ratio.''"
  using composed_prompt_structure [of "[7, 8]" example_page "''P''" "''16:9''"]
  by (simp add: hasBg_def at_def numCharacters_def instructions_def small_digits)

text \<open>
  Claim C8. When the selection is exactly the stored background image, \<open>hasBg\<close> holds,
  \<open>numCharacters\<close> is 0, and the only instruction is the one to use the first image as
  background with its people removed: the prompt holds no instruction to integrate
  characters and none against duplicates.
\<close>

theorem background_only_prompt:
  assumes "referenceImages pg ''bg'' = Some b"
  shows "hasBg pg [b] \<and> numCharacters (hasBg pg [b]) [b] = 0 \<and>
    instructions (hasBg pg [b]) (numCharacters (hasBg pg [b]) [b]) =
      [''Use the first provided image as the main background. Critically, you must remove any people from this image, using only the scenery as the background for the final composition.''] \<and>
    finalPrompt (instructions (hasBg pg [b]) (numCharacters (hasBg pg [b]) [b])) prompt aspectRatio =
      ''Use the first provided image as the main background. Critically, you must remove any people from this image, using only the scenery as the background for the final composition.'' @
      [newline, newline] @ ''Here is the creative brief: '' @ [dquote] @ prompt @ [dquote] @
      [newline, newline] @ ''Finally, the image must have a '' @ aspectRatio @ '' aspect ratio.''"
  using assms by (simp add: hasBg_def at_def numCharacters_def instructions_def finalPrompt_def)

theorem background_only_prompt_witness:
  "referenceImages example_page ''bg'' = Some 7 \<and>
   (hasBg example_page [7] \<and> numCharacters (hasBg example_page [7]) [7] = 0 \<and>
    instructions (hasBg example_page [7]) (numCharacters (hasBg example_page [7]) [7]) =
      [''Use the first provided image as the main background. Critically, you must remove any people from this image, using only the scenery as the background for the final composition.''] \<and>
    finalPrompt (instructions (hasBg example_page [7]) (numCharacters (hasBg example_page [7]) [7]))
      ''P'' ''1:1'' =
      ''Use the first provided image as the main background. Critically, you must remove any people from this image, using only the scenery as the background for the final composition.'' @
      [newline, newline] @ ''Here is the creative brief: '' @ [dquote] @ ''P'' @ [dquote] @
      [newline, newline] @ ''Finally, the image must have a '' @ ''1:1'' @ '' aspect ratio.'')"
proof -
  have h: "referenceImages example_page ''bg'' = Some 7"
    by simp
  show ?thesis
    by (rule conjI [OF h background_only_prompt [OF h, of "''P''" "''1:1''"]])
qed

text \<open>
  Claim C9. When the selection is two images of which the first is not the stored
  background image, the prompt starts with ``Combine the 2 characters'' (plural), followed
  by the instruction that each distinct character appears once and none is omitted or
  duplicated.
\<close>

theorem two_characters_prompt:
  assumes "referenceImages pg ''bg'' \<noteq> Some c1"
  shows "\<not> hasBg pg [c1, c2] \<and> numCharacters (hasBg pg [c1, c2]) [c1, c2] = 2 \<and>
    instructions (hasBg pg [c1, c2]) (numCharacters (hasBg pg [c1, c2]) [c1, c2]) =
      [''Combine the 2 characters from the reference images into a single cohesive scene based on the text prompt.'',
       ''Crucially, ensure each distinct character appears only once in the final image and that no characters are omitted or duplicated.''] \<and>
    finalPrompt (instructions (hasBg pg [c1, c2]) (numCharacters (hasBg pg [c1, c2]) [c1, c2]))
      prompt aspectRatio =
      ''Combine the 2 characters from the reference images into a single cohesive scene based on the text prompt. Crucially, ensure each distinct character appears only once in the final image and that no characters are omitted or duplicated.'' @
      [newline, newline] @ ''Here is the creative brief: '' @ [dquote] @ prompt @ [dquote] @
      [newline, newline] @ ''Finally, the image must have a '' @ aspectRatio @ '' aspect ratio.''"
  using assms
  by (simp add: hasBg_def at_def numCharacters_def instructions_def finalPrompt_def
      string_of_nat.simps digit_def)

theorem two_characters_prompt_witness:
  "referenceImages empty_page ''bg'' \<noteq> Some 8 \<and>
   (\<not> hasBg empty_page [8, 9] \<and> numCharacters (hasBg empty_page [8, 9]) [8, 9] = 2 \<and>
    instructions (hasBg empty_page [8, 9]) (numCharacters (hasBg empty_page [8, 9]) [8, 9]) =
      [''Combine the 2 characters from the reference images into a single cohesive scene based on the text prompt.'',
       ''Crucially, ensure each distinct character appears only once in the final image and that no characters are omitted or duplicated.''] \<and>
    finalPrompt
      (instructions (hasBg empty_page [8, 9]) (numCharacters (hasBg empty_page [8, 9]) [8, 9]))
      ''P'' ''4:3'' =
      ''Combine the 2 characters from the reference images into a single cohesive scene based on the text prompt. Crucially, ensure each distinct character appears only once in the final image and that no characters are omitted or duplicated.'' @
      [newline, newline] @ ''Here is the creative brief: '' @ [dquote] @ ''P'' @ [dquote] @
      [newline, newline] @ ''Finally, the image must have a '' @ ''4:3'' @ '' aspect ratio.'')"
proof -
  have h: "referenceImages empty_page ''bg'' \<noteq> Some 8"
    by simp
  show ?thesis
    by (rule conjI [OF h two_characters_prompt [OF h, of 9 "''P''" "''4:3''"]])
qed

subsection \<open>Generation client\<close>

text \<open>
  Claim C3. A submit with an empty selection sends exactly one request, to the
  text-to-image endpoint, whose prompt is the text of the prompt field unchanged, for
  3 images, the chosen aspect ratio and the output type \<open>image/jpeg\<close>. A submit with a
  non-empty selection sends exactly one request, to the composition endpoint, holding
  one image part per selected image, in order, followed by the composed prompt.
\<close>

theorem request_modes:
  "(getSelectedImages pg = [] \<longrightarrow>
      requests (generateAndDisplayImages ai pg) =
        requests pg @
        [GenerateImages
           \<lparr>gi_model = ''imagen-4.0-generate-001'',
            gi_prompt = prompt_input_value pg,
            config_numberOfImages = 3,
            config_aspectRatio = aspect_ratio_select_value pg,
            config_outputMimeType = ''image/jpeg''\<rparr>]) \<and>
   (getSelectedImages pg \<noteq> [] \<longrightarrow>
      requests (generateAndDisplayImages ai pg) =
        requests pg @
        [GenerateContent
           \<lparr>gc_model = ''gemini-2.5-flash-image-preview'',
            contents_parts =
              map (\<lambda>img. \<lparr>inlineData = Some \<lparr>data = Some (base64 (objects pg img)),
                                              inlineMimeType = Some (mimeType (objects pg img))\<rparr>,
                           partText = None\<rparr>)
                (getSelectedImages pg) @
              [\<lparr>inlineData = None,
                partText = Some
                  (finalPrompt
                     (instructions (hasBg pg (getSelectedImages pg))
                        (numCharacters (hasBg pg (getSelectedImages pg)) (getSelectedImages pg)))
                     (prompt_input_value pg) (aspect_ratio_select_value pg))\<rparr>],
            config_responseModalities = [IMAGE, TEXT]\<rparr>])"
  by (simp add: generate_requests text_to_image_params_def composition_params_def
      composed_prompt_def imagePart_def Let_def)

theorem request_modes_witness:
  "getSelectedImages empty_page = [] \<and>
   requests (generateAndDisplayImages refusing_ai empty_page) =
     [GenerateImages
        \<lparr>gi_model = ''imagen-4.0-generate-001'',
         gi_prompt = ''P'',
         config_numberOfImages = 3,
         config_aspectRatio = ''16:9'',
         config_outputMimeType = ''image/jpeg''\<rparr>] \<and>
   getSelectedImages example_page \<noteq> [] \<and>
   requests (generateAndDisplayImages refusing_ai example_page) =
     [GenerateContent
        \<lparr>gc_model = ''gemini-2.5-flash-image-preview'',
         contents_parts =
           [\<lparr>inlineData = Some \<lparr>data = Some ''QkdH'', inlineMimeType = Some ''image/jpeg''\<rparr>,
             partText = None\<rparr>,
            \<lparr>inlineData = Some \<lparr>data = Some ''Q0hS'', inlineMimeType = Some ''image/png''\<rparr>,
             partText = None\<rparr>,
            \<lparr>inlineData = None,
             partText = Some
               (''Use the first provided image as the main background. Critically, you must remove any people from this image, using only the scenery as the background for the final composition. Integrate the 1 character from the other reference images into the background scene. Crucially, ensure each distinct character appears only once in the final image and that no characters are omitted or duplicated.'' @
                [newline, newline] @ ''Here is the creative brief: '' @ [dquote] @ ''P'' @ [dquote] @
                [newline, newline] @ ''Finally, the image must have a 16:9 aspect ratio.'')\<rparr>],
         config_responseModalities = [IMAGE, TEXT]\<rparr>]"
  using request_modes [of empty_page refusing_ai] request_modes [of example_page refusing_ai]
  by (simp add: hasBg_def at_def numCharacters_def instructions_def finalPrompt_def small_digits)

text \<open>
  The behaviour of the composition mode for a response with no image, where the content
  of the first candidate, if there is one, has its parts: the error thrown has the
  response's textual parts, joined by single spaces, as its message, or the fixed text
  when there is none; it is logged, and the gallery is given the markup of the error
  message, in which the text stands as it is.
\<close>

lemma no_image_error_with_parts:
  assumes "requests (generateAndDisplayImages ai pg) = requests pg @ [GenerateContent params]"
    and "generateContent ai params = Inr response"
    and "\<not> parts_missing response"
    and "\<forall>p \<in> set (response_parts response). inlineData p = None"
  shows "console_error (generateAndDisplayImages ai pg) =
      console_error pg @ [Error (no_image_message response)] \<and>
    image_gallery (generateAndDisplayImages ai pg) =
      (case image_gallery pg of
         None \<Rightarrow> None
       | Some old \<Rightarrow>
           Some [Markup
             (''<div class='' @ [dquote] @ ''message error'' @ [dquote] @ ''>'' @ ''Error: '' @
              no_image_message response @ ''</div>'')])"
proof -
  have sel: "getSelectedImages pg \<noteq> []" and params: "params = composition_params pg"
    using assms(1) by (auto simp add: generate_requests split: if_splits)
  have "filter (\<lambda>p. inlineData p \<noteq> None) (response_parts response) = []"
    using assms(4) by (simp add: filter_empty_conv)
  then have thrown: "fst (try_block ai (entry pg)) = Some (Error (no_image_message response))"
    using sel assms(2,3) params by (simp add: thrown_by_try_block)
  show ?thesis
    using generate_thrown [OF thrown]
    by (simp add: errorMessage_def message_markup_def cong: option.case_cong)
qed

text \<open>
  Claim C4. In composition mode, a response whose content parts hold no inline data
  should give an error whose message is the response's textual parts or, when there are
  none, the fixed fallback text, shown as an error with no image displayed. The code
  does not do so on two responses of that kind. For a first candidate whose content has
  no parts (\<open>blocked\<close>: no inline data, no text), the unguarded \<open>.parts.filter\<close> throws,
  and what is logged and shown is the engine's \<open>TypeError\<close> message, not the fallback
  text. For a response whose text is an image tag (\<open>tag_reply\<close>), the text is written
  into the markup of the gallery as it is, tag included.
\<close>

theorem no_image_error_missing_parts:
  "response_parts blocked = [] \<and> text_parts blocked = [] \<and>
   requests (generateAndDisplayImages blocked_ai example_page) =
     requests example_page @ [GenerateContent (composition_params example_page)] \<and>
   generateContent blocked_ai (composition_params example_page) = Inr blocked \<and>
   console_error (generateAndDisplayImages blocked_ai example_page) =
     [Error (''Cannot read properties of undefined (reading '' @ [CHR 0x27] @ ''filter'' @
             [CHR 0x27] @ '')'')] \<and>
   console_error (generateAndDisplayImages blocked_ai example_page) \<noteq>
     [Error ''No image was generated by the model.''] \<and>
   image_gallery (generateAndDisplayImages blocked_ai example_page) =
     Some [Markup (''<div class='' @ [dquote] @ ''message error'' @ [dquote] @
                   ''>Error: Cannot read properties of undefined (reading '' @ [CHR 0x27] @
                   ''filter'' @ [CHR 0x27] @ '')</div>'')] \<and>
   text_parts tag_reply = [''<img src=x>''] \<and>
   image_gallery (generateAndDisplayImages tag_ai example_page) =
     Some [Markup (''<div class='' @ [dquote] @ ''message error'' @ [dquote] @
                   ''>Error: <img src=x></div>'')]"
proof -
  have fc: "first_content blocked = Some \<lparr>parts = None\<rparr>"
    by (simp add: first_content_def blocked_def at_def)
  have missing: "parts_missing blocked"
    by (simp add: parts_missing_def fc)
  have no_parts: "response_parts blocked = []"
    by (simp add: response_parts_def fc)
  have no_texts: "text_parts blocked = []"
    by (simp add: text_parts_def no_parts)
  have r: "requests (generateAndDisplayImages blocked_ai example_page) =
      requests example_page @ [GenerateContent (composition_params example_page)]"
    by (simp add: generate_requests)
  have a: "generateContent blocked_ai (composition_params example_page) = Inr blocked"
    by (simp add: blocked_ai_def)
  have "fst (try_block blocked_ai (entry example_page)) =
      Some (Error (typeError_message example_page))"
    using a missing by (simp add: thrown_by_try_block)
  from generate_thrown [OF this]
  have shown: "image_gallery (generateAndDisplayImages blocked_ai example_page) =
      Some [Markup (message_markup (''Error: '' @ typeError_message example_page) True)]"
    and logged: "console_error (generateAndDisplayImages blocked_ai example_page) =
      [Error (typeError_message example_page)]"
    by (simp_all add: errorMessage_def)
  have fc_tag: "first_content tag_reply =
      Some \<lparr>parts = Some [\<lparr>inlineData = None, partText = Some ''<img src=x>''\<rparr>]\<rparr>"
    by (simp add: first_content_def tag_reply_def at_def)
  have tag_parts: "response_parts tag_reply = [\<lparr>inlineData = None, partText = Some ''<img src=x>''\<rparr>]"
    by (simp add: response_parts_def fc_tag)
  have tag_texts: "text_parts tag_reply = [''<img src=x>'']"
    by (simp add: text_parts_def tag_parts)
  have r_tag: "requests (generateAndDisplayImages tag_ai example_page) =
      requests example_page @ [GenerateContent (composition_params example_page)]"
    by (simp add: generate_requests)
  have a_tag: "generateContent tag_ai (composition_params example_page) = Inr tag_reply"
    by (simp add: tag_ai_def)
  have present: "\<not> parts_missing tag_reply"
    by (simp add: parts_missing_def fc_tag)
  have none: "\<forall>p \<in> set (response_parts tag_reply). inlineData p = None"
    by (simp add: tag_parts)
  have tag_shown: "image_gallery (generateAndDisplayImages tag_ai example_page) =
      Some [Markup (''<div class='' @ [dquote] @ ''message error'' @ [dquote] @
                    ''>Error: <img src=x></div>'')]"
    using no_image_error_with_parts [OF r_tag a_tag present none]
    by (simp add: no_image_message_def tag_texts)
  show ?thesis
    using no_parts no_texts r a shown logged tag_texts tag_shown
    by (simp add: message_markup_def)
qed

text \<open>
  Claim C7, as the code has it. The button is enabled again when the operation ends,
  whatever happened. Every value thrown in the \<open>try\<close> block (a rejection by either
  endpoint, the \<open>TypeError\<close> for content without parts, the error for a response with no
  image) is logged and shown as an error message: ``Error: '' followed by the message of
  the value when it is an instance of \<open>Error\<close>, also when that message is empty, and
  by the fixed fallback text when it is not an instance of \<open>Error\<close>, also when it
  carries a message.
\<close>

theorem errors_rendered_button_enabled:
  "generate_button_disabled (generateAndDisplayImages ai pg) = False \<and>
   (\<forall>params error.
      requests (generateAndDisplayImages ai pg) = requests pg @ [GenerateImages params] \<and>
      generateImages ai params = Inl error \<longrightarrow>
      renders_error pg (generateAndDisplayImages ai pg) error) \<and>
   (\<forall>params error.
      requests (generateAndDisplayImages ai pg) = requests pg @ [GenerateContent params] \<and>
      generateContent ai params = Inl error \<longrightarrow>
      renders_error pg (generateAndDisplayImages ai pg) error) \<and>
   (\<forall>params response.
      requests (generateAndDisplayImages ai pg) = requests pg @ [GenerateContent params] \<and>
      generateContent ai params = Inr response \<and> parts_missing response \<longrightarrow>
      renders_error pg (generateAndDisplayImages ai pg) (Error (typeError_message pg))) \<and>
   (\<forall>params response.
      requests (generateAndDisplayImages ai pg) = requests pg @ [GenerateContent params] \<and>
      generateContent ai params = Inr response \<and> \<not> parts_missing response \<and>
      filter (\<lambda>p. inlineData p \<noteq> None) (response_parts response) = [] \<longrightarrow>
      renders_error pg (generateAndDisplayImages ai pg) (Error (no_image_message response)))"
proof (intro conjI allI impI)
  show "generate_button_disabled (generateAndDisplayImages ai pg) = False"
    by (rule generate_disabled)
next
  fix params error
  assume a: "requests (generateAndDisplayImages ai pg) = requests pg @ [GenerateImages params] \<and>
      generateImages ai params = Inl error"
  then have "getSelectedImages pg = []" and "params = text_to_image_params pg"
    by (auto simp add: generate_requests split: if_splits)
  with a have "fst (try_block ai (entry pg)) = Some error"
    by (simp add: thrown_by_try_block)
  from generate_thrown [OF this] show "renders_error pg (generateAndDisplayImages ai pg) error"
    by (simp add: renders_error_def errorMessage_def cong: option.case_cong)
next
  fix params error
  assume a: "requests (generateAndDisplayImages ai pg) = requests pg @ [GenerateContent params] \<and>
      generateContent ai params = Inl error"
  then have "getSelectedImages pg \<noteq> []" and "params = composition_params pg"
    by (auto simp add: generate_requests split: if_splits)
  with a have "fst (try_block ai (entry pg)) = Some error"
    by (simp add: thrown_by_try_block)
  from generate_thrown [OF this] show "renders_error pg (generateAndDisplayImages ai pg) error"
    by (simp add: renders_error_def errorMessage_def cong: option.case_cong)
next
  fix params response
  assume a: "requests (generateAndDisplayImages ai pg) = requests pg @ [GenerateContent params] \<and>
      generateContent ai params = Inr response \<and> parts_missing response"
  then have "getSelectedImages pg \<noteq> []" and "params = composition_params pg"
    by (auto simp add: generate_requests split: if_splits)
  with a have "fst (try_block ai (entry pg)) = Some (Error (typeError_message pg))"
    by (simp add: thrown_by_try_block)
  from generate_thrown [OF this]
  show "renders_error pg (generateAndDisplayImages ai pg) (Error (typeError_message pg))"
    by (simp add: renders_error_def errorMessage_def cong: option.case_cong)
next
  fix params response
  assume a: "requests (generateAndDisplayImages ai pg) = requests pg @ [GenerateContent params] \<and>
      generateContent ai params = Inr response \<and> \<not> parts_missing response \<and>
      filter (\<lambda>p. inlineData p \<noteq> None) (response_parts response) = []"
  then have "getSelectedImages pg \<noteq> []" and "params = composition_params pg"
    by (auto simp add: generate_requests split: if_splits)
  with a have "fst (try_block ai (entry pg)) = Some (Error (no_image_message response))"
    by (simp add: thrown_by_try_block)
  from generate_thrown [OF this]
  show "renders_error pg (generateAndDisplayImages ai pg) (Error (no_image_message response))"
    by (simp add: renders_error_def errorMessage_def cong: option.case_cong)
qed

text \<open>
  A rejection with an \<open>Error\<close>, a rejection with a value that is no \<open>Error\<close> and has no
  message, and the \<open>TypeError\<close> of the blocked response.
\<close>

theorem errors_rendered_button_enabled_witness:
  "generate_button_disabled (generateAndDisplayImages failing_ai empty_page) = False \<and>
   generateImages failing_ai (text_to_image_params empty_page) = Inl (Error ''quota exceeded'') \<and>
   console_error (generateAndDisplayImages failing_ai empty_page) = [Error ''quota exceeded''] \<and>
   image_gallery (generateAndDisplayImages failing_ai empty_page) =
     Some [Markup (''<div class='' @ [dquote] @ ''message error'' @ [dquote] @
                   ''>Error: quota exceeded</div>'')] \<and>
   generateContent failing_ai (composition_params example_page) = Inl (NonError None) \<and>
   console_error (generateAndDisplayImages failing_ai example_page) = [NonError None] \<and>
   image_gallery (generateAndDisplayImages failing_ai example_page) =
     Some [Markup (''<div class='' @ [dquote] @ ''message error'' @ [dquote] @
                   ''>Error: Could not load images. Please check the console for details.</div>'')] \<and>
   generateContent blocked_ai (composition_params example_page) = Inr blocked \<and>
   parts_missing blocked \<and>
   renders_error example_page (generateAndDisplayImages blocked_ai example_page)
     (Error (typeError_message example_page))"
proof -
  have r1: "requests (generateAndDisplayImages failing_ai empty_page) =
      requests empty_page @ [GenerateImages (text_to_image_params empty_page)]"
    by (simp add: generate_requests)
  have a1: "generateImages failing_ai (text_to_image_params empty_page) = Inl (Error ''quota exceeded'')"
    by (simp add: failing_ai_def)
  have r2: "requests (generateAndDisplayImages failing_ai example_page) =
      requests example_page @ [GenerateContent (composition_params example_page)]"
    by (simp add: generate_requests)
  have a2: "generateContent failing_ai (composition_params example_page) = Inl (NonError None)"
    by (simp add: failing_ai_def)
  have r3: "requests (generateAndDisplayImages blocked_ai example_page) =
      requests example_page @ [GenerateContent (composition_params example_page)]"
    by (simp add: generate_requests)
  have a3: "generateContent blocked_ai (composition_params example_page) = Inr blocked"
    by (simp add: blocked_ai_def)
  have m3: "parts_missing blocked"
    by (simp add: parts_missing_def first_content_def blocked_def at_def)
  have e1: "renders_error empty_page (generateAndDisplayImages failing_ai empty_page)
      (Error ''quota exceeded'')"
    using errors_rendered_button_enabled [of failing_ai empty_page] r1 a1 by blast
  have e2: "renders_error example_page (generateAndDisplayImages failing_ai example_page)
      (NonError None)"
    using errors_rendered_button_enabled [of failing_ai example_page] r2 a2 by blast
  have e3: "renders_error example_page (generateAndDisplayImages blocked_ai example_page)
      (Error (typeError_message example_page))"
    using errors_rendered_button_enabled [of blocked_ai example_page] r3 a3 m3 by blast
  have d: "generate_button_disabled (generateAndDisplayImages failing_ai empty_page) = False"
    using errors_rendered_button_enabled [of failing_ai empty_page] by blast
  show ?thesis
    using e1 e2 e3 d a1 a2 a3 m3 by (simp add: renders_error_def message_markup_def)
qed

text \<open>
  The claim as the specification words it gives the fallback text when the error lacks
  a message. A rejection with an object that is not an \<open>Error\<close> and has the message
  \<open>boom\<close> is shown with the fallback text, not with \<open>boom\<close>; a rejection with an
  \<open>Error\<close> whose message is empty is shown with the empty message, not with the fallback
  text.
\<close>

theorem error_fallback_counterexample:
  "generateImages object_ai (text_to_image_params empty_page) = Inl (NonError (Some ''boom'')) \<and>
   thrown_message (NonError (Some ''boom'')) = Some ''boom'' \<and>
   claimed_error_text (NonError (Some ''boom'')) = ''boom'' \<and>
   image_gallery (generateAndDisplayImages object_ai empty_page) =
     Some [Markup (''<div class='' @ [dquote] @ ''message error'' @ [dquote] @
                   ''>Error: Could not load images. Please check the console for details.</div>'')] \<and>
   image_gallery (generateAndDisplayImages object_ai empty_page) \<noteq>
     Some [Markup (message_markup
                     (''Error: '' @ claimed_error_text (NonError (Some ''boom''))) True)] \<and>
   generateImages empty_message_ai (text_to_image_params empty_page) = Inl (Error []) \<and>
   claimed_error_text (Error []) =
     ''Could not load images. Please check the console for details.'' \<and>
   image_gallery (generateAndDisplayImages empty_message_ai empty_page) =
     Some [Markup (''<div class='' @ [dquote] @ ''message error'' @ [dquote] @
                   ''>Error: </div>'')] \<and>
   image_gallery (generateAndDisplayImages empty_message_ai empty_page) \<noteq>
     Some [Markup (message_markup (''Error: '' @ claimed_error_text (Error [])) True)]"
proof -
  have a1: "generateImages object_ai (text_to_image_params empty_page) =
      Inl (NonError (Some ''boom''))"
    by (simp add: object_ai_def refusing_ai_def)
  then have "fst (try_block object_ai (entry empty_page)) = Some (NonError (Some ''boom''))"
    by (simp add: thrown_by_try_block)
  from generate_thrown(1) [OF this]
  have g1: "image_gallery (generateAndDisplayImages object_ai empty_page) =
     Some [Markup (''<div class='' @ [dquote] @ ''message error'' @ [dquote] @
                   ''>Error: Could not load images. Please check the console for details.</div>'')]"
    by (simp add: errorMessage_def message_markup_def)
  have a2: "generateImages empty_message_ai (text_to_image_params empty_page) = Inl (Error [])"
    by (simp add: empty_message_ai_def refusing_ai_def)
  then have "fst (try_block empty_message_ai (entry empty_page)) = Some (Error [])"
    by (simp add: thrown_by_try_block)
  from generate_thrown(1) [OF this]
  have g2: "image_gallery (generateAndDisplayImages empty_message_ai empty_page) =
     Some [Markup (''<div class='' @ [dquote] @ ''message error'' @ [dquote] @
                   ''>Error: </div>'')]"
    by (simp add: errorMessage_def message_markup_def)
  show ?thesis
    using a1 a2
    by (simp add: g1 g2 thrown_message_def claimed_error_text_def or_else_def message_markup_def)
qed

subsection \<open>Gallery renderer\<close>

text \<open>
  Claim C5. When the page has a gallery, the download links that \<open>displayImages\<close> leaves
  in it are, in order, one for each entry of the result list that carries image bytes; the
  file name of the link of the entry at position \<open>i\<close> (counted from 0 in the whole list,
  entries without bytes included) is \<open>generated-image-\<close>, the number \<open>i + 1\<close>, a dot
  and the extension of the entry's MIME type (\<open>jpeg\<close> when there is none to read). One
  result of type \<open>image/png\<close> gives \<open>generated-image-1.png\<close>.
\<close>

theorem download_filenames:
  "(image_gallery pg \<noteq> None \<longrightarrow>
      download_names (displayImages (Some gs) pg) =
        map (\<lambda>(i, g). ''generated-image-'' @ string_of_nat (i + 1) @ ''.'' @
                        mime_extension (result_mime g))
          (filter (\<lambda>(i, g). carries_bytes g) (enumerate 0 gs))) \<and>
   (image_gallery pg \<noteq> None \<and> bytes \<noteq> [] \<longrightarrow>
      download_names
        (displayImages
           (Some [\<lparr>image' = Some \<lparr>imageBytes = Some bytes, imageMimeType = Some ''image/png''\<rparr>\<rparr>])
           pg) =
        [''generated-image-1.png''])"
proof (intro conjI impI)
  assume "image_gallery pg \<noteq> None"
  then show "download_names (displayImages (Some gs) pg) =
        map (\<lambda>(i, g). ''generated-image-'' @ string_of_nat (i + 1) @ ''.'' @
                        mime_extension (result_mime g))
          (filter (\<lambda>(i, g). carries_bytes g) (enumerate 0 gs))"
    by (rule download_names_displayImages)
next
  assume "image_gallery pg \<noteq> None \<and> bytes \<noteq> []"
  then show "download_names
        (displayImages
           (Some [\<lparr>image' = Some \<lparr>imageBytes = Some bytes, imageMimeType = Some ''image/png''\<rparr>\<rparr>])
           pg) =
        [''generated-image-1.png'']"
    by (simp add: download_names_displayImages carries_bytes_def truthy_def result_mime_def
        mime_extension_def small_digits)
qed

theorem download_filenames_witness:
  "image_gallery example_page \<noteq> None \<and>
   map carries_bytes three_results = [True, False, True] \<and>
   download_names (displayImages (Some three_results) example_page) =
     [''generated-image-1.png'', ''generated-image-3.jpeg'']"
  using download_filenames [of example_page three_results "''QUJD''"]
  by (simp add: three_results_def carries_bytes_def truthy_def result_mime_def
      mime_extension_def string_of_nat.simps digit_def)

text \<open>
  Claim C6. Given no result list or an empty one, \<open>displayImages\<close> replaces whatever the
  gallery held by the message that no images were generated (not marked as an error); the
  gallery holds no image. A page without a gallery container is left as it is.
\<close>

theorem no_results_message:
  "image_gallery (displayImages None pg) =
     (case image_gallery pg of
        None \<Rightarrow> None
      | Some old \<Rightarrow>
          Some [Markup (''<div class='' @ [dquote] @ ''message '' @ [dquote] @
                        ''>No images were generated or the response was empty.</div>'')]) \<and>
   image_gallery (displayImages (Some []) pg) =
     (case image_gallery pg of
        None \<Rightarrow> None
      | Some old \<Rightarrow>
          Some [Markup (''<div class='' @ [dquote] @ ''message '' @ [dquote] @
                        ''>No images were generated or the response was empty.</div>'')]) \<and>
   download_names (displayImages None pg) = [] \<and>
   download_names (displayImages (Some []) pg) = []"
  by (simp add: display_none display_empty download_names_def message_markup_def
      split: option.splits)

theorem no_results_message_witness:
  "image_gallery example_page = Some [Markup ''old''] \<and>
   image_gallery (displayImages None example_page) =
     Some [Markup (''<div class='' @ [dquote] @ ''message '' @ [dquote] @
                   ''>No images were generated or the response was empty.</div>'')] \<and>
   image_gallery (displayImages (Some []) example_page) =
     Some [Markup (''<div class='' @ [dquote] @ ''message '' @ [dquote] @
                   ''>No images were generated or the response was empty.</div>'')]"
  using no_results_message [of example_page]
  by simp

text \<open>
  Claim C10. Given a non-empty result list of which no entry carries image bytes,
  \<open>displayImages\<close> empties the gallery and adds nothing: neither an image nor the
  message that no images were generated.
\<close>

theorem no_bytes_empty_gallery:
  assumes "gs \<noteq> []" and "\<forall>g \<in> set gs. \<not> carries_bytes g"
  shows "image_gallery (displayImages (Some gs) pg) =
     (case image_gallery pg of None \<Rightarrow> None | Some old \<Rightarrow> Some [])"
  using assms by (rule display_no_bytes)

theorem no_bytes_empty_gallery_witness:
  "no_bytes_results \<noteq> [] \<and> list_all (\<lambda>g. \<not> carries_bytes g) no_bytes_results \<and>
   image_gallery example_page = Some [Markup ''old''] \<and>
   image_gallery (displayImages (Some no_bytes_results) example_page) = Some []"
proof -
  have ne: "no_bytes_results \<noteq> []"
    by (simp add: no_bytes_results_def)
  have nb: "\<forall>g \<in> set no_bytes_results. \<not> carries_bytes g"
    by (simp add: no_bytes_results_def carries_bytes_def truthy_def)
  show ?thesis
    using no_bytes_empty_gallery [OF ne nb, of example_page] ne nb
    by (simp add: list_all_iff)
qed

end
